theory Spec2Isabelle
  imports Main "HOL-Library.Word"
begin

section \<open>Go values used by package json2\<close>

text \<open>
  Go's \<open>int\<close> is a 64-bit two's complement integer on the platforms the package is
  built for; its \<open>*\<close> wraps around. An \<open>error\<close> built by \<open>fmt.Errorf\<close> or
  \<open>errors.New\<close> is its message; the \<open>nil\<close> error is \<open>None\<close>.
\<close>

type_synonym go_int = "64 word"
type_synonym go_error = string

text \<open>
  A function that returns \<open>(T, error)\<close> either returns a value, fails with an error
  (the value is then the zero value of \<open>T\<close>, \<open>nil\<close> for a slice) or panics.
\<close>

datatype 'a outcome = Returns 'a | Fails go_error | Panics string

text \<open>
  \<open>fmt\<close>'s verb \<open>%d\<close> on a non-negative \<open>int\<close> (a length): the decimal digits.
\<close>

definition digit :: "nat \<Rightarrow> char" where
  "digit d = ''0123456789'' ! d"

function Itoa :: "nat \<Rightarrow> string" where
  "Itoa n = (if n < 10 then [digit n] else Itoa (n div 10) @ [digit (n mod 10)])"
  by pat_completeness auto
termination
  by (relation "measure id") auto

declare Itoa.simps [simp del]

subsection \<open>Package reflect\<close>

text \<open>
  \<open>reflect.Kind\<close> and its \<open>String\<close> method (the names \<open>fmt\<close> prints for \<open>%s\<close>).
\<close>

datatype Kind =
    reflect_Invalid | reflect_Bool | reflect_Int | reflect_Int8 | reflect_Int16 | reflect_Int32 | reflect_Int64
  | reflect_Uint | reflect_Uint8 | reflect_Uint16 | reflect_Uint32 | reflect_Uint64 | reflect_Uintptr
  | reflect_Float32 | reflect_Float64 | reflect_Complex64 | reflect_Complex128
  | reflect_Array | reflect_Chan | reflect_Func | reflect_Interface | reflect_Map | reflect_Pointer | reflect_Slice | reflect_String | reflect_Struct
  | reflect_UnsafePointer

fun Kind_String :: "Kind \<Rightarrow> string" where
  "Kind_String reflect_Invalid = ''invalid''"
| "Kind_String reflect_Bool = ''bool''"
| "Kind_String reflect_Int = ''int''"
| "Kind_String reflect_Int8 = ''int8''"
| "Kind_String reflect_Int16 = ''int16''"
| "Kind_String reflect_Int32 = ''int32''"
| "Kind_String reflect_Int64 = ''int64''"
| "Kind_String reflect_Uint = ''uint''"
| "Kind_String reflect_Uint8 = ''uint8''"
| "Kind_String reflect_Uint16 = ''uint16''"
| "Kind_String reflect_Uint32 = ''uint32''"
| "Kind_String reflect_Uint64 = ''uint64''"
| "Kind_String reflect_Uintptr = ''uintptr''"
| "Kind_String reflect_Float32 = ''float32''"
| "Kind_String reflect_Float64 = ''float64''"
| "Kind_String reflect_Complex64 = ''complex64''"
| "Kind_String reflect_Complex128 = ''complex128''"
| "Kind_String reflect_Array = ''array''"
| "Kind_String reflect_Chan = ''chan''"
| "Kind_String reflect_Func = ''func''"
| "Kind_String reflect_Interface = ''interface''"
| "Kind_String reflect_Map = ''map''"
| "Kind_String reflect_Pointer = ''ptr''"
| "Kind_String reflect_Slice = ''slice''"
| "Kind_String reflect_String = ''string''"
| "Kind_String reflect_Struct = ''struct''"
| "Kind_String reflect_UnsafePointer = ''unsafe.Pointer''"

text \<open>
  Types as \<open>reflect\<close> and \<open>%T\<close> see them. \<open>Plain name k\<close> is a type of kind \<open>k\<close>
  that is neither a pointer nor a struct, printed as \<open>name\<close> (\<open>int\<close>, \<open>string\<close>,
  \<open>[]string\<close>, ...); \<open>PtrTo t\<close> is \<open>*t\<close>; \<open>StructT name fields\<close> is a named struct
  type with its fields in declaration order. \<open>IsExported\<close> is \<open>reflect\<close>'s
  \<open>StructField.IsExported\<close>: the field's name starts with an upper-case letter.
\<close>

datatype gotype =
    Plain string Kind
  | PtrTo gotype
  | StructT string "StructField list"
and StructField = StructField (Name: string) (IsExported: bool) (Type: gotype)

fun Type_Kind :: "gotype \<Rightarrow> Kind" where
  "Type_Kind (Plain n k) = k"
| "Type_Kind (PtrTo t) = reflect_Pointer"
| "Type_Kind (StructT n fs) = reflect_Struct"

fun Type_String :: "gotype \<Rightarrow> string" where
  "Type_String (Plain n k) = n"
| "Type_String (PtrTo t) = ''*'' @ Type_String t"
| "Type_String (StructT n fs) = n"

text \<open>
  Variables are named by locations: a variable of its own, or the \<open>i\<close>-th field of the
  struct at a location. A value of interface type (\<open>interface{}\<close>) is \<open>nil\<close> or a
  dynamic type with its data word, which for a pointer type is the pointer itself
  (\<open>None\<close> is the \<open>nil\<close> pointer); the data word of other types is not read by this
  package and is left out.
\<close>

datatype loc = Var nat | FieldOf loc nat

datatype iface = NilIface | Iface gotype "loc option"

text \<open>
  \<open>reflect.Value\<close>, as far as the package looks at it: the zero Value; \<open>Direct t p ro\<close>,
  a value of type \<open>t\<close> that is not addressable (what \<open>reflect.ValueOf\<close> returns, with
  \<open>p\<close> the pointer it holds when \<open>t\<close> is a pointer type); \<open>Stored t l ro\<close>, the
  addressable variable of type \<open>t\<close> at location \<open>l\<close>. \<open>ro\<close> is \<open>flagRO\<close>: the
  value was reached through an unexported struct field. The methods panic where package
  \<open>reflect\<close> documents it: \<open>NumField\<close> and \<open>Field\<close> on a Value whose kind is not
  \<open>Struct\<close>, \<open>Field\<close> out of range, \<open>Addr\<close> on a Value that is not addressable,
  \<open>Interface\<close> on a Value obtained through an unexported field. The contents of
  variables are not part of the model: \<open>Elem\<close> of a stored pointer variable is not
  modelled (the package takes \<open>Elem\<close> only of what \<open>ValueOf\<close> returned), and
  \<open>Interface\<close> of a stored variable gives its type only.
\<close>

datatype Value =
    ZeroValue
  | Direct gotype "loc option" bool
  | Stored gotype loc bool

fun reflect_ValueOf :: "iface \<Rightarrow> Value" where
  "reflect_ValueOf NilIface = ZeroValue"
| "reflect_ValueOf (Iface t p) = Direct t p False"

fun Value_Kind :: "Value \<Rightarrow> Kind" where
  "Value_Kind ZeroValue = reflect_Invalid"
| "Value_Kind (Direct t p ro) = Type_Kind t"
| "Value_Kind (Stored t l ro) = Type_Kind t"

fun Value_Elem :: "Value \<Rightarrow> Value outcome" where
  "Value_Elem (Direct (PtrTo t) None ro) = Returns ZeroValue"
| "Value_Elem (Direct (PtrTo t) (Some l) ro) = Returns (Stored t l ro)"
| "Value_Elem ZeroValue = Panics ''reflect: call of reflect.Value.Elem on zero Value''"
| "Value_Elem v = Panics (''reflect: call of reflect.Value.Elem on '' @ Kind_String (Value_Kind v) @ '' Value'')"

fun Value_NumField :: "Value \<Rightarrow> nat outcome" where
  "Value_NumField (Direct (StructT n fs) p ro) = Returns (length fs)"
| "Value_NumField (Stored (StructT n fs) l ro) = Returns (length fs)"
| "Value_NumField ZeroValue = Panics ''reflect: call of reflect.Value.NumField on zero Value''"
| "Value_NumField v = Panics (''reflect: call of reflect.Value.NumField on '' @ Kind_String (Value_Kind v) @ '' Value'')"

fun Value_Field :: "Value \<Rightarrow> nat \<Rightarrow> Value outcome" where
  "Value_Field (Stored (StructT n fs) l ro) i =
     (if i < length fs
      then Returns (Stored (Type (fs ! i)) (FieldOf l i) (ro \<or> \<not> IsExported (fs ! i)))
      else Panics ''reflect: Field index out of range'')"
| "Value_Field (Direct (StructT n fs) p ro) i =
     (if i < length fs
      then Returns (Direct (Type (fs ! i)) None (ro \<or> \<not> IsExported (fs ! i)))
      else Panics ''reflect: Field index out of range'')"
| "Value_Field ZeroValue i = Panics ''reflect: call of reflect.Value.Field on zero Value''"
| "Value_Field v i = Panics (''reflect: call of reflect.Value.Field on '' @ Kind_String (Value_Kind v) @ '' Value'')"

fun Value_Addr :: "Value \<Rightarrow> Value outcome" where
  "Value_Addr (Stored t l ro) = Returns (Direct (PtrTo t) (Some l) ro)"
| "Value_Addr v = Panics ''reflect.Value.Addr of unaddressable value''"

fun Value_Interface :: "Value \<Rightarrow> iface outcome" where
  "Value_Interface ZeroValue = Panics ''reflect: call of reflect.Value.Interface on zero Value''"
| "Value_Interface (Direct t p ro) =
     (if ro then Panics ''reflect.Value.Interface: cannot return value obtained from unexported field or method''
      else Returns (Iface t p))"
| "Value_Interface (Stored t l ro) =
     (if ro then Panics ''reflect.Value.Interface: cannot return value obtained from unexported field or method''
      else Returns (Iface t None))"

section \<open>utils.go\<close>

text \<open>
  The loop \<open>for i := 0; i < val.NumField(); i++ { v[i] = val.Field(i).Addr().Interface() }\<close>
  of \<open>structFieldsToFieldsSlice\<close>, over the slice \<open>v\<close> and the index \<open>i\<close>.
\<close>

function fieldsLoop :: "Value \<Rightarrow> iface list \<Rightarrow> nat \<Rightarrow> iface list outcome" where
  "fieldsLoop val v i =
     (case Value_NumField val of
        Panics m \<Rightarrow> Panics m
      | Fails e \<Rightarrow> Fails e
      | Returns n \<Rightarrow>
          if i < n then
            (case Value_Field val i of
               Panics m \<Rightarrow> Panics m
             | Fails e \<Rightarrow> Fails e
             | Returns valueField \<Rightarrow>
                 (case Value_Addr valueField of
                    Panics m \<Rightarrow> Panics m
                  | Fails e \<Rightarrow> Fails e
                  | Returns a \<Rightarrow>
                      (case Value_Interface a of
                         Panics m \<Rightarrow> Panics m
                       | Fails e \<Rightarrow> Fails e
                       | Returns x \<Rightarrow> fieldsLoop val (v[i := x]) (i + 1))))
          else Returns v)"
  by pat_completeness auto
termination
  by (relation "measure (\<lambda>(val, v, i). (case Value_NumField val of Returns n \<Rightarrow> n | _ \<Rightarrow> 0) - i)") auto

declare fieldsLoop.simps [simp del]

text \<open>
  \<open>func structFieldsToFieldsSlice(u interface{}) ([]interface{}, error)\<close>.
  \<open>make([]interface{}, n)\<close> is \<open>n\<close> \<open>nil\<close> interfaces.
\<close>

definition structFieldsToFieldsSlice :: "iface \<Rightarrow> iface list outcome" where
  "structFieldsToFieldsSlice u =
     (let valInterface = reflect_ValueOf u in
      if Value_Kind valInterface \<noteq> reflect_Pointer
      then Fails (''input argument must be a pointer, got '' @ Kind_String (Value_Kind valInterface))
      else
        (case Value_Elem valInterface of
           Panics m \<Rightarrow> Panics m
         | Fails e \<Rightarrow> Fails e
         | Returns val \<Rightarrow>
             (case Value_NumField val of
                Panics m \<Rightarrow> Panics m
              | Fails e \<Rightarrow> Fails e
              | Returns n \<Rightarrow> fieldsLoop val (replicate n NilIface) 0)))"


subsection \<open>JSON values and package gjson\<close>

text \<open>
  \<open>UnmarshalJSON\<close> is the method encoding/json calls on a \<open>json.Unmarshaler\<close>, with
  the text of one valid JSON value. The model takes that value instead of its bytes;
  a number keeps its literal. \<open>gjson.ParseBytes\<close> on such a text gives a \<open>Result\<close>
  whose \<open>Type\<close> is read off the value's first byte (\<open>JSON\<close> for an object or an
  array), \<open>IsArray\<close> holds for an array, and \<open>Array\<close> gives the elements of an array,
  nothing for \<open>null\<close> and the value itself otherwise. \<open>Raw\<close> is the value's own text.
\<close>

datatype json =
    JNull | JFalse | JTrue
  | JNumber string
  | JString string
  | JArray "json list"
  | JObject "(string \<times> json) list"

datatype gjson_Type = gjson_Null | gjson_False | gjson_Number | gjson_String | gjson_True | gjson_JSON

fun gjson_Type_String :: "gjson_Type \<Rightarrow> string" where
  "gjson_Type_String gjson_Null = ''Null''"
| "gjson_Type_String gjson_False = ''False''"
| "gjson_Type_String gjson_Number = ''Number''"
| "gjson_Type_String gjson_String = ''String''"
| "gjson_Type_String gjson_True = ''True''"
| "gjson_Type_String gjson_JSON = ''JSON''"

type_synonym Result = json

definition gjson_ParseBytes :: "json \<Rightarrow> Result" where
  "gjson_ParseBytes data = data"

fun Result_Type :: "Result \<Rightarrow> gjson_Type" where
  "Result_Type JNull = gjson_Null"
| "Result_Type JFalse = gjson_False"
| "Result_Type JTrue = gjson_True"
| "Result_Type (JNumber n) = gjson_Number"
| "Result_Type (JString s) = gjson_String"
| "Result_Type (JArray es) = gjson_JSON"
| "Result_Type (JObject ms) = gjson_JSON"

fun Result_IsArray :: "Result \<Rightarrow> bool" where
  "Result_IsArray (JArray es) = True"
| "Result_IsArray r = False"

fun Result_Array :: "Result \<Rightarrow> Result list" where
  "Result_Array JNull = []"
| "Result_Array (JArray es) = es"
| "Result_Array r = [r]"

fun Result_Raw :: "Result \<Rightarrow> json" where
  "Result_Raw r = r"

subsection \<open>StructFields\<close>

text \<open>
  \<open>type StructFields []interface{}\<close>. \<open>%T\<close> prints the dynamic type of an interface
  value. \<open>json.Unmarshal\<close> belongs to encoding/json: it is a parameter of the model, a
  function from the element's text, the reference and the memory to the memory it leaves
  and the error it returns.
\<close>

type_synonym StructFields = "iface list"

fun iface_T :: "iface \<Rightarrow> string" where
  "iface_T NilIface = ''<nil>''"
| "iface_T (Iface t p) = Type_String t"

type_synonym 's Unmarshal = "json \<Rightarrow> iface \<Rightarrow> 's \<Rightarrow> 's \<times> go_error option"

text \<open>The three \<open>fmt.Errorf\<close> calls of \<open>UnmarshalJSON\<close>; \<open>%w\<close> prints the wrapped error's message.\<close>

definition errNotArray :: "gjson_Type \<Rightarrow> go_error" where
  "errNotArray t = ''expected array but got '' @ gjson_Type_String t"

definition errLength :: "nat \<Rightarrow> nat \<Rightarrow> go_error" where
  "errLength k m = ''input array has '' @ Itoa k
     @ '' elements but we are trying to unserialize in only '' @ Itoa m @ '' struct fields''"

definition errField :: "nat \<Rightarrow> iface \<Rightarrow> go_error \<Rightarrow> go_error" where
  "errField i reference err = ''unable to marshal JSON into field '' @ Itoa i @ '' of type ''
     @ iface_T reference @ '': '' @ err"

text \<open>
  The loop \<open>for i, elementResult := range elementResults\<close>. Indexing \<open>(*f)[i]\<close>
  beyond the slice panics; the length check before the loop excludes it.
\<close>

function unmarshalLoop :: "'s Unmarshal \<Rightarrow> StructFields \<Rightarrow> Result list \<Rightarrow> nat \<Rightarrow> 's \<Rightarrow> ('s \<times> go_error option) outcome" where
  "unmarshalLoop json_Unmarshal f elementResults i s =
     (if i < length elementResults then
        (if i < length f then
           (let reference = f ! i in
            case json_Unmarshal (Result_Raw (elementResults ! i)) reference s of
              (s', Some err) \<Rightarrow> Returns (s', Some (errField i reference err))
            | (s', None) \<Rightarrow> unmarshalLoop json_Unmarshal f elementResults (i + 1) s')
         else Panics ''runtime error: index out of range'')
      else Returns (s, None))"
  by pat_completeness auto
termination
  by (relation "measure (\<lambda>(U, f, es, i, s). length es - i)") auto

declare unmarshalLoop.simps [simp del]

text \<open>
  \<open>func (f *StructFields) UnmarshalJSON(data []byte) error\<close>: the memory it leaves
  and the error it returns.
\<close>

definition UnmarshalJSON :: "'s Unmarshal \<Rightarrow> StructFields \<Rightarrow> json \<Rightarrow> 's \<Rightarrow> ('s \<times> go_error option) outcome" where
  "UnmarshalJSON json_Unmarshal f data s =
     (let result = gjson_ParseBytes data in
      if \<not> Result_IsArray result
      then Returns (s, Some (errNotArray (Result_Type result)))
      else
        (let elementResults = Result_Array result in
         if length elementResults \<noteq> length f
         then Returns (s, Some (errLength (length elementResults) (length f)))
         else unmarshalLoop json_Unmarshal f elementResults 0 s))"

text \<open>
  The memory after \<open>json.Unmarshal\<close> has run, in order, on the first \<open>i\<close> elements
  and the first \<open>i\<close> references: what decoding element \<open>0\<close> into field \<open>0\<close>, then
  element \<open>1\<close> into field \<open>1\<close>, and so on, leaves.
\<close>

fun boundPrefix :: "'s Unmarshal \<Rightarrow> StructFields \<Rightarrow> json list \<Rightarrow> nat \<Rightarrow> 's \<Rightarrow> 's" where
  "boundPrefix U f es 0 s = s"
| "boundPrefix U f es (Suc i) s = fst (U (es ! i) (f ! i) (boundPrefix U f es i s))"

text \<open>
  A pointer to the \<open>i\<close>-th field of the struct at \<open>l\<close>, as an interface value: its
  dynamic type is pointer to the field's declared type.
\<close>

definition fieldRef :: "StructField list \<Rightarrow> loc \<Rightarrow> nat \<Rightarrow> iface" where
  "fieldRef fs l i = Iface (PtrTo (Type (fs ! i))) (Some (FieldOf l i))"

subsection \<open>A json.Unmarshal for variables that do not alias\<close>

text \<open>
  An instance of the parameter, on which the binder is run below. The memory gives each
  location its value; unmarshalling through a pointer decodes into the variable it
  points to and touches no other. A reference that is \<open>nil\<close>, not a pointer or a
  \<open>nil\<close> pointer gives encoding/json's \<open>InvalidUnmarshalError\<close>. \<open>decodeString\<close>
  decodes into a \<open>string\<close> variable: a JSON string is stored, \<open>null\<close> leaves the
  variable as it is, every other value is an \<open>UnmarshalTypeError\<close>.
\<close>

type_synonym 'v store = "loc \<Rightarrow> 'v"

definition Unmarshal_slots :: "(gotype \<Rightarrow> json \<Rightarrow> 'v \<Rightarrow> 'v \<times> go_error option) \<Rightarrow> 'v store Unmarshal" where
  "Unmarshal_slots decode raw reference s =
     (case reference of
        NilIface \<Rightarrow> (s, Some ''json: Unmarshal(nil)'')
      | Iface t p \<Rightarrow>
          (case t of
             PtrTo t' \<Rightarrow>
               (case p of
                  None \<Rightarrow> (s, Some (''json: Unmarshal(nil '' @ Type_String t @ '')''))
                | Some l \<Rightarrow> (s(l := fst (decode t' raw (s l))), snd (decode t' raw (s l))))
           | _ \<Rightarrow> (s, Some (''json: Unmarshal(non-pointer '' @ Type_String t @ '')''))))"

fun decodeString :: "gotype \<Rightarrow> json \<Rightarrow> string \<Rightarrow> string \<times> go_error option" where
  "decodeString t (JString x) v = (x, None)"
| "decodeString t JNull v = (v, None)"
| "decodeString t (JNumber n) v = (v, Some (''json: cannot unmarshal number into Go value of type '' @ Type_String t))"
| "decodeString t JTrue v = (v, Some (''json: cannot unmarshal bool into Go value of type '' @ Type_String t))"
| "decodeString t JFalse v = (v, Some (''json: cannot unmarshal bool into Go value of type '' @ Type_String t))"
| "decodeString t (JArray es) v = (v, Some (''json: cannot unmarshal array into Go value of type '' @ Type_String t))"
| "decodeString t (JObject ms) v = (v, Some (''json: cannot unmarshal object into Go value of type '' @ Type_String t))"

section \<open>client.go\<close>

text \<open>
  \<open>json.Marshal\<close> and the server's decoder meet at the JSON value the bytes denote; the
  model takes that value for the bytes. The member of an object under a key:
\<close>

fun json_get :: "json \<Rightarrow> string \<Rightarrow> json option" where
  "json_get (JObject ms) k = map_of ms k"
| "json_get j k = None"

subsection \<open>Strings in encoding/json\<close>

text \<open>
  A Go string is any sequence of bytes. \<open>json.Marshal\<close> writes a string as a JSON string
  coerced to valid UTF-8: it walks the string with \<open>utf8.DecodeRuneInString\<close> and writes
  the replacement character U+FFFD (the bytes EF BF BD) for every byte at which no valid
  encoding starts; every other character is written as itself or as an escape that denotes
  it. \<open>utf8_DecodeRuneInString\<close> gives the size of the valid encoding at the head of the
  string, or \<open>None\<close> where package utf8 returns \<open>(RuneError, 1)\<close>: a continuation or
  unused leading byte, a truncated sequence, an overlong form, a surrogate, a value beyond
  U+10FFFF. \<open>utf8_ValidString\<close> is \<open>utf8.ValidString\<close>; \<open>coerceUTF8\<close> is the text of
  the JSON string \<open>json.Marshal\<close> writes.
\<close>

definition inRange :: "nat \<Rightarrow> nat \<Rightarrow> char \<Rightarrow> bool" where
  "inRange lo hi c = (lo \<le> of_char c \<and> of_char c \<le> hi)"

fun utf8_DecodeRuneInString :: "string \<Rightarrow> nat option" where
  "utf8_DecodeRuneInString [] = None"
| "utf8_DecodeRuneInString (c0 # rest) =
     (let s0 = (of_char c0 :: nat) in
      if s0 < 0x80 then Some 1
      else if s0 < 0xC2 then None
      else if s0 < 0xE0 then
        (case rest of
           c1 # _ \<Rightarrow> if inRange 0x80 0xBF c1 then Some 2 else None
         | _ \<Rightarrow> None)
      else if s0 < 0xF0 then
        (case rest of
           c1 # c2 # _ \<Rightarrow>
             if inRange (if s0 = 0xE0 then 0xA0 else 0x80) (if s0 = 0xED then 0x9F else 0xBF) c1
                \<and> inRange 0x80 0xBF c2
             then Some 3 else None
         | _ \<Rightarrow> None)
      else if s0 < 0xF5 then
        (case rest of
           c1 # c2 # c3 # _ \<Rightarrow>
             if inRange (if s0 = 0xF0 then 0x90 else 0x80) (if s0 = 0xF4 then 0x8F else 0xBF) c1
                \<and> inRange 0x80 0xBF c2 \<and> inRange 0x80 0xBF c3
             then Some 4 else None
         | _ \<Rightarrow> None)
      else None)"

function utf8_ValidString :: "string \<Rightarrow> bool" where
  "utf8_ValidString [] = True"
| "utf8_ValidString (c # cs) =
     (case utf8_DecodeRuneInString (c # cs) of
        None \<Rightarrow> False
      | Some n \<Rightarrow> utf8_ValidString (drop (n - 1) cs))"
  by pat_completeness auto
termination
  by (relation "measure length") auto

function coerceUTF8 :: "string \<Rightarrow> string" where
  "coerceUTF8 [] = []"
| "coerceUTF8 (c # cs) =
     (case utf8_DecodeRuneInString (c # cs) of
        None \<Rightarrow> [CHR 0xEF, CHR 0xBF, CHR 0xBD] @ coerceUTF8 cs
      | Some n \<Rightarrow> c # take (n - 1) cs @ coerceUTF8 (drop (n - 1) cs))"
  by pat_completeness auto
termination
  by (relation "measure length") auto

declare utf8_DecodeRuneInString.simps [simp del]
declare utf8_ValidString.simps(2) [simp del]
declare coerceUTF8.simps(2) [simp del]

text \<open>A string of bytes below 0x80.\<close>

definition isASCII :: "string \<Rightarrow> bool" where
  "isASCII s = list_all (\<lambda>c. (of_char c :: nat) < 0x80) s"

text \<open>
  \<open>type clientRequest struct\<close>, with the field tags \<open>jsonrpc\<close>, \<open>method\<close>, \<open>params\<close>
  and \<open>id\<close>. \<open>Params\<close> is an \<open>interface{}\<close>: any argument value. \<open>Id\<close> is a
  \<open>uint64\<close>.
\<close>

record 'a clientRequest =
  Version :: string
  Method :: string
  Params :: 'a
  Id' :: "64 word"

text \<open>
  \<open>json.Marshal(c)\<close> for a \<open>*clientRequest\<close>: an object with one member per field, in
  declaration order and under the tag's name; no field is tagged \<open>omitempty\<close>. The
  encoding of \<open>Params\<close> depends on the argument's type: \<open>json.Marshal\<close> of the argument
  is a parameter, and its failure is the failure of the whole call. The two strings are
  coerced to valid UTF-8; a \<open>uint64\<close> is written in decimal.
\<close>

definition Marshal_clientRequest :: "('a \<Rightarrow> json outcome) \<Rightarrow> 'a clientRequest \<Rightarrow> json outcome" where
  "Marshal_clientRequest json_Marshal c =
     (case json_Marshal (Params c) of
        Panics m \<Rightarrow> Panics m
      | Fails e \<Rightarrow> Fails e
      | Returns p \<Rightarrow>
          Returns (JObject [(''jsonrpc'', JString (coerceUTF8 (Version c))),
                            (''method'', JString (coerceUTF8 (Method c))),
                            (''params'', p),
                            (''id'', JNumber (Itoa (unat (Id' c))))]))"

text \<open>
  \<open>func EncodeClientRequest(method string, args interface{}) ([]byte, error)\<close>. The
  request id is \<open>uint64(rand.Int63())\<close>: the number drawn is an input of the model.
\<close>

definition EncodeClientRequest :: "('a \<Rightarrow> json outcome) \<Rightarrow> 64 word \<Rightarrow> string \<Rightarrow> 'a \<Rightarrow> json outcome" where
  "EncodeClientRequest json_Marshal rand_Int63 method args =
     (let c = \<lparr>Version = ''2.0'', Method = method, Params = args, Id' = rand_Int63\<rparr>
      in Marshal_clientRequest json_Marshal c)"

text \<open>
  Two instances of \<open>json.Marshal\<close> for the argument. The first is for an argument given
  by the JSON value it encodes to. The second is for a struct given by its named fields,
  each with its value: a string (a Go string, any bytes), a number by its literal, a
  boolean, \<open>nil\<close>, a list of values or named values again, written with the constructors
  of \<open>json\<close>. \<open>Marshal_value\<close> is the JSON value such a value encodes to: every string
  in it is coerced to valid UTF-8. \<open>validStrings\<close> holds when every string in the value
  is valid UTF-8.
\<close>

fun Marshal_value :: "json \<Rightarrow> json" where
  "Marshal_value (JString s) = JString (coerceUTF8 s)"
| "Marshal_value (JArray es) = JArray (map Marshal_value es)"
| "Marshal_value (JObject ms) = JObject (map (\<lambda>m. (coerceUTF8 (fst m), Marshal_value (snd m))) ms)"
| "Marshal_value j = j"

fun validStrings :: "json \<Rightarrow> bool" where
  "validStrings (JString s) = utf8_ValidString s"
| "validStrings (JArray es) = list_all validStrings es"
| "validStrings (JObject ms) = list_all (\<lambda>m. utf8_ValidString (fst m) \<and> validStrings (snd m)) ms"
| "validStrings j = True"


definition Marshal_json :: "json \<Rightarrow> json outcome" where
  "Marshal_json j = Returns j"

definition Marshal_fields :: "(string \<times> json) list \<Rightarrow> json outcome" where
  "Marshal_fields fs = Returns (Marshal_value (JObject fs))"

section \<open>The server side of the codec\<close>

text \<open>
  The server half of package json2 (the codec with its request decoder, parameter binder
  and response encoder, the \<open>Error\<close> type and the error codes) is not among the sources:
  only the tests that call it are. What follows is written from the specification.
\<close>

text \<open>
  Modelled from the spec: the error code taxonomy of section 3. The constants
  \<open>E_PARSE\<close>, \<open>E_SERVER\<close> and the others are used by the tests; their declarations are
  not among the sources.
\<close>

type_synonym ErrorCode = int

definition E_PARSE :: ErrorCode where "E_PARSE = - 32700"
definition E_INVALID_REQ :: ErrorCode where "E_INVALID_REQ = - 32600"
definition E_NO_METHOD :: ErrorCode where "E_NO_METHOD = - 32601"
definition E_BAD_PARAMS :: ErrorCode where "E_BAD_PARAMS = - 32602"
definition E_INTERNAL :: ErrorCode where "E_INTERNAL = - 32603"
definition E_SERVER :: ErrorCode where "E_SERVER = - 32000"

text \<open>
  Modelled from the spec: the \<open>ErrorObject\<close> of section 3 (code, message, optional data).
  The tests build it as \<open>&Error{Code: ..., Message: ...}\<close>; the declaration of the type is
  not among the sources.
\<close>

record Error =
  Code :: ErrorCode
  Message :: string
  Data :: "json option"

text \<open>
  A Go \<open>error\<close> as the codec meets it: a plain error made by \<open>errors.New\<close>, which is a
  pointer, given by the number of the allocation it points to and its message; or a
  \<open>*Error\<close> of this package. \<open>==\<close> on two plain errors compares the pointers: two
  errors made by two calls of \<open>errors.New\<close> differ, also when their messages agree.
  \<open>Error_text\<close> is \<open>err.Error()\<close>; for a \<open>*Error\<close>, whose \<open>Error\<close> method is not
  among the sources, it is taken to be the message.
\<close>

datatype err_value = ErrorString nat string | ErrorObject Error

fun Error_text :: "err_value \<Rightarrow> string" where
  "Error_text (ErrorString a m) = m"
| "Error_text (ErrorObject e) = Message e"

text \<open>
  Modelled from the spec: the request record of section 4.2, which exposes the method
  name, the raw params, the id (present or absent, with its value) and a validity flag
  with a reason. The server's request type is not among the sources.
\<close>

record RequestRecord =
  methodName :: string
  rawParams :: "json option"
  requestId :: "json option"
  invalidReason :: "string option"

text \<open>
  Modelled from the spec: the response envelope of section 3, the result or the error and
  the echo of the request id. The server's response type is not among the sources.
\<close>

record ResponseRecord =
  result :: "json option"
  error :: "Error option"
  responseId :: "json option"

text \<open>
  Modelled from the spec: the Batch Detector of section 4.1, which looks at the first
  byte after leading whitespace. The tests call \<open>isBatch\<close>; its body is not among the
  sources.
\<close>

definition isBatch :: "string \<Rightarrow> bool" where
  "isBatch raw =
     (case dropWhile (\<lambda>c. c \<in> set [CHR '' '', CHR 0x09, CHR 0x0A, CHR 0x0D]) raw of
        [] \<Rightarrow> False
      | c # cs \<Rightarrow> c = CHR ''['')"

text \<open>
  Modelled from the spec: the per-message parse of section 4.2. An object that misses
  \<open>method\<close> or has a wrong \<open>jsonrpc\<close> version is accepted and flagged invalid. The
  server's decoder is not among the sources.
\<close>

definition decodeRecord :: "json \<Rightarrow> RequestRecord" where
  "decodeRecord j =
     \<lparr>methodName = (case json_get j ''method'' of Some (JString m) \<Rightarrow> m | _ \<Rightarrow> ''''),
      rawParams = json_get j ''params'',
      requestId = json_get j ''id'',
      invalidReason =
        (case j of
           JObject ms \<Rightarrow>
             (if json_get j ''jsonrpc'' = Some (JString ''2.0'')
              then (case json_get j ''method'' of
                      Some (JString m) \<Rightarrow> None
                    | _ \<Rightarrow> Some ''method is missing'')
              else Some ''jsonrpc must be 2.0'')
         | _ \<Rightarrow> Some ''request is not an object'')\<rparr>"

text \<open>
  Modelled from the spec: \<open>DecodeRequest\<close> of section 4.2. The JSON syntax check
  belongs to encoding/json and is the parameter \<open>parse\<close>, \<open>None\<close> on a text that is not
  valid JSON. Any syntax error is a parse failure; an array gives its records in array
  order; the empty array is an invalid request; any other value gives one record. The
  server's decoder is not among the sources.
\<close>

datatype decoded =
    ParseFailure
  | EmptyBatch
  | Records "RequestRecord list" bool

definition DecodeRequest :: "(string \<Rightarrow> json option) \<Rightarrow> string \<Rightarrow> decoded" where
  "DecodeRequest parse raw =
     (case parse raw of
        None \<Rightarrow> ParseFailure
      | Some j \<Rightarrow>
          if isBatch raw then
            (case j of
               JArray [] \<Rightarrow> EmptyBatch
             | JArray es \<Rightarrow> Records (map decodeRecord es) True
             | _ \<Rightarrow> ParseFailure)
          else Records [decodeRecord j] False)"

text \<open>
  Modelled from the spec: the two origins of a failure in section 4.4, the codec itself
  (parse failure, invalid request, unknown method, bad params: a fixed code) and the
  handler (an error value). The mapping hook is a function from the context and the
  error to an error.
\<close>

datatype failure = ProtocolFailure ErrorCode string | HandlerFailure err_value

type_synonym 'c ErrorMapper = "'c \<Rightarrow> err_value \<Rightarrow> err_value"

text \<open>
  Modelled from the spec: \<open>EncodeSuccess(id, result)\<close> of section 4.4, a response with
  \<open>error\<close> absent. The server's encoder is not among the sources.
\<close>

definition EncodeSuccess :: "json option \<Rightarrow> json \<Rightarrow> ResponseRecord" where
  "EncodeSuccess i res = \<lparr>result = Some res, error = None, responseId = i\<rparr>"

text \<open>
  Modelled from the spec: the mapping step of \<open>EncodeError\<close> in section 4.4. The error
  is first passed through the optional mapping function; a typed \<open>Error\<close> that comes out
  is used verbatim, any other error is wrapped with code \<open>E_SERVER\<close> and its text as
  the message. The server's encoder is not among the sources.
\<close>

definition mapError :: "'c ErrorMapper option \<Rightarrow> 'c \<Rightarrow> err_value \<Rightarrow> Error" where
  "mapError mapper ctx err =
     (case (case mapper of None \<Rightarrow> err | Some m \<Rightarrow> m ctx err) of
        ErrorObject e \<Rightarrow> e
      | ErrorString a msg \<Rightarrow> \<lparr>Code = E_SERVER, Message = msg, Data = None\<rparr>)"

text \<open>
  Modelled from the spec: \<open>EncodeError(id, err)\<close> of section 4.4, a response with
  \<open>result\<close> absent. A protocol-level failure keeps its fixed code and bypasses the
  mapping function. The server's encoder is not among the sources.
\<close>

definition EncodeError :: "'c ErrorMapper option \<Rightarrow> 'c \<Rightarrow> json option \<Rightarrow> failure \<Rightarrow> ResponseRecord" where
  "EncodeError mapper ctx i f =
     \<lparr>result = None,
      error = Some (case f of
                ProtocolFailure code msg \<Rightarrow> \<lparr>Code = code, Message = msg, Data = None\<rparr>
              | HandlerFailure err \<Rightarrow> mapError mapper ctx err),
      responseId = i\<rparr>"

text \<open>
  Modelled from the spec: one request through the codec (section 2, control flow). The
  method registry with the handlers is the external collaborator \<open>dispatch\<close>: from the
  method name and the raw params to a result or a failure. A record flagged invalid is
  answered with \<open>E_INVALID_REQ\<close> and is not dispatched.
\<close>

type_synonym dispatcher = "string \<Rightarrow> json option \<Rightarrow> failure + json"

definition respond :: "'c ErrorMapper option \<Rightarrow> 'c \<Rightarrow> dispatcher \<Rightarrow> RequestRecord \<Rightarrow> ResponseRecord" where
  "respond mapper ctx dispatch r =
     (case invalidReason r of
        Some reason \<Rightarrow> EncodeError mapper ctx (requestId r) (ProtocolFailure E_INVALID_REQ reason)
      | None \<Rightarrow>
          (case dispatch (methodName r) (rawParams r) of
             Inl f \<Rightarrow> EncodeError mapper ctx (requestId r) f
           | Inr res \<Rightarrow> EncodeSuccess (requestId r) res))"

text \<open>
  Modelled from the spec: the reply to a request body (sections 4.2, 4.4 and 7). A body
  that does not parse gets one \<open>E_PARSE\<close> response, the empty batch one
  \<open>E_INVALID_REQ\<close> response; a batch is answered by the array of the responses to its
  records with a present id, in request order, and a single request by one object, or
  by nothing when its id is absent. The server's request loop is not among the sources.
\<close>

datatype reply = NoReply | EncodeSingle ResponseRecord | EncodeBatch "ResponseRecord list"

definition answered :: "RequestRecord \<Rightarrow> bool" where
  "answered r = (requestId r \<noteq> None)"

definition ServeRequest :: "'c ErrorMapper option \<Rightarrow> 'c \<Rightarrow> dispatcher \<Rightarrow> (string \<Rightarrow> json option) \<Rightarrow> string \<Rightarrow> reply" where
  "ServeRequest mapper ctx dispatch parse raw =
     (case DecodeRequest parse raw of
        ParseFailure \<Rightarrow>
          EncodeSingle (EncodeError mapper ctx None (ProtocolFailure E_PARSE ''parse error''))
      | EmptyBatch \<Rightarrow>
          EncodeSingle (EncodeError mapper ctx None (ProtocolFailure E_INVALID_REQ ''empty batch''))
      | Records rs batch \<Rightarrow>
          if batch then EncodeBatch (map (respond mapper ctx dispatch) (filter answered rs))
          else (case rs of
                  [r] \<Rightarrow> if answered r then EncodeSingle (respond mapper ctx dispatch r) else NoReply
                | _ \<Rightarrow> NoReply))"

fun replies :: "reply \<Rightarrow> ResponseRecord list" where
  "replies NoReply = []"
| "replies (EncodeSingle r) = [r]"
| "replies (EncodeBatch rs) = rs"

text \<open>
  Modelled from the spec: \<open>BindParams\<close> of section 4.3 on a target given by its named
  slots, each holding the JSON value bound to it. By name, a slot takes the member of its
  name and keeps its value when there is none; by position, the lengths must agree;
  absent params leave the target as it is. The server's binder is not among the sources.
\<close>

definition BindParams :: "json option \<Rightarrow> (string \<times> json) list \<Rightarrow> failure + (string \<times> json) list" where
  "BindParams raw target =
     (case raw of
        None \<Rightarrow> Inr target
      | Some (JObject ms) \<Rightarrow>
          Inr (map (\<lambda>(n, v). (n, case map_of ms n of Some x \<Rightarrow> x | None \<Rightarrow> v)) target)
      | Some (JArray es) \<Rightarrow>
          if length es \<noteq> length target
          then Inl (ProtocolFailure E_BAD_PARAMS
                 (''got '' @ Itoa (length es) @ '' params for '' @ Itoa (length target) @ '' fields''))
          else Inr (map (\<lambda>((n, v), e). (n, e)) (zip target es))
      | Some other \<Rightarrow> Inl (ProtocolFailure E_BAD_PARAMS ''params must be an object or an array''))"

section \<open>json\_test.go: the test service\<close>

record Service1Request =
  A :: go_int
  B :: go_int

record Service1Response =
  Result :: go_int

definition Service1DefaultResponse :: go_int where
  "Service1DefaultResponse = 9999"

text \<open>The types of the test's structs, as \<open>reflect\<close> describes them.\<close>

definition int_T :: gotype where
  "int_T = Plain ''int'' reflect_Int"

definition string_T :: gotype where
  "string_T = Plain ''string'' reflect_String"

definition Service1Request_T :: gotype where
  "Service1Request_T = StructT ''json2.Service1Request''
     [StructField ''A'' True int_T, StructField ''B'' True int_T]"

text \<open>
  \<open>func (t *Service1) Multiply(r *http.Request, req *Service1Request, res *Service1Response) error\<close>.
  The receiver has no fields and the HTTP request \<open>r\<close> is not read. The method writes
  \<open>res.Result\<close> and returns \<open>nil\<close>: the model returns the updated response together
  with the error.
\<close>

definition Multiply :: "'r \<Rightarrow> Service1Request \<Rightarrow> Service1Response \<Rightarrow> Service1Response \<times> go_error option" where
  "Multiply r req res =
     (if A req = 0 \<and> B req = 0
      then (res\<lparr>Result := Service1DefaultResponse\<rparr>, None)
      else (res\<lparr>Result := A req * B req\<rparr>, None))"

text \<open>
  The errors of the test handlers \<open>ResponseError\<close> and \<open>MappedResponseError\<close>, two
  package variables made by two calls of \<open>errors.New\<close>, and the \<open>errorMapper\<close> of
  \<open>TestServiceWithErrorMapper\<close>: it maps the error that is \<open>ErrMappedResponseError\<close>
  itself to an \<open>Error\<close> with code 100 and every other error to an \<open>Error\<close> with code
  \<open>E_SERVER\<close>.
\<close>

definition ErrResponseError :: err_value where
  "ErrResponseError = ErrorString 0 ''response error''"

definition ErrMappedResponseError :: err_value where
  "ErrMappedResponseError = ErrorString 1 ''mapped response error''"

definition mappedErrorCode :: ErrorCode where
  "mappedErrorCode = 100"

definition errorMapper :: "'c ErrorMapper" where
  "errorMapper ctx err =
     (if err = ErrMappedResponseError
      then ErrorObject \<lparr>Code = mappedErrorCode, Message = Error_text err, Data = None\<rparr>
      else ErrorObject \<lparr>Code = E_SERVER, Message = Error_text err, Data = None\<rparr>)"

text \<open>
  The body \<open>executeRaw\<close> sends in \<open>TestServiceBatch\<close>: two
  \<open>Service1ParamsArrayRequest\<close> values with the ids 1 and 2, as text and as the JSON
  value the text denotes.
\<close>

definition batchText :: string where
  "batchText = ''[{\"jsonrpc\":\"2.0\",\"params\":[{\"T\":\"test\"}],\"method\":\"Service1.Multiply\",\"id\":1},{\"jsonrpc\":\"2.0\",\"params\":[{\"T\":\"test\"}],\"method\":\"Service1.Multiply\",\"id\":2}]''"

definition batchValue :: "json list" where
  "batchValue =
     [JObject [(''jsonrpc'', JString ''2.0''), (''params'', JArray [JObject [(''T'', JString ''test'')]]),
               (''method'', JString ''Service1.Multiply''), (''id'', JNumber ''1'')],
      JObject [(''jsonrpc'', JString ''2.0''), (''params'', JArray [JObject [(''T'', JString ''test'')]]),
               (''method'', JString ''Service1.Multiply''), (''id'', JNumber ''2'')]]"

section \<open>Properties\<close>

subsection \<open>Helper lemmas: decimal digits\<close>

lemma Itoa_digit: "n < 10 \<Longrightarrow> Itoa n = [digit n]"
  by (subst Itoa.simps) simp

subsection \<open>structFieldsToFieldsSlice\<close>

text \<open>
  One round of the loop stores the pointer to field \<open>i\<close> when the field is exported and
  panics in \<open>Interface\<close> when it is not.
\<close>

lemma fieldsLoop_step:
  assumes "i < length fs" "IsExported (fs ! i)"
  shows "fieldsLoop (Stored (StructT n fs) l False) v i =
         fieldsLoop (Stored (StructT n fs) l False) (v[i := fieldRef fs l i]) (Suc i)"
  using assms by (subst fieldsLoop.simps) (simp add: fieldRef_def)

lemma fieldsLoop_panic:
  assumes "i < length fs" "\<not> IsExported (fs ! i)"
  shows "fieldsLoop (Stored (StructT n fs) l False) v i =
         Panics ''reflect.Value.Interface: cannot return value obtained from unexported field or method''"
  using assms by (subst fieldsLoop.simps) simp

lemma fieldsLoop_done:
  "length fs \<le> i \<Longrightarrow> fieldsLoop (Stored (StructT n fs) l False) v i = Returns v"
  by (subst fieldsLoop.simps) simp

lemma fieldsLoop_exported:
  assumes "\<forall>x\<in>set fs. IsExported x" "length v = length fs" "i \<le> length fs"
  shows "fieldsLoop (Stored (StructT n fs) l False) v i =
         Returns (take i v @ map (fieldRef fs l) [i..<length fs])"
  using assms
proof (induction "length fs - i" arbitrary: i v)
  case 0
  then show ?case by (simp add: fieldsLoop_done)
next
  case (Suc d)
  then have lt: "i < length fs" by simp
  then have ex: "IsExported (fs ! i)" using Suc.prems(1) by simp
  have "fieldsLoop (Stored (StructT n fs) l False) (v[i := fieldRef fs l i]) (Suc i) =
        Returns (take (Suc i) (v[i := fieldRef fs l i]) @ map (fieldRef fs l) [Suc i..<length fs])"
  proof (rule Suc.hyps(1))
    show "d = length fs - Suc i" using Suc.hyps(2) by simp
  qed (use Suc.prems lt in auto)
  moreover have "take (Suc i) (v[i := fieldRef fs l i]) = take i v @ [fieldRef fs l i]"
    using lt Suc.prems(2) by (simp add: take_Suc_conv_app_nth)
  moreover have "[i..<length fs] = i # [Suc i..<length fs]"
    using lt by (simp add: upt_conv_Cons)
  ultimately show ?case
    using fieldsLoop_step [OF lt ex] by simp
qed

lemma structFieldsToFieldsSlice_exported:
  assumes "\<forall>x\<in>set fs. IsExported x"
  shows "structFieldsToFieldsSlice (Iface (PtrTo (StructT n fs)) (Some l)) =
         Returns (map (fieldRef fs l) [0..<length fs])"
  using fieldsLoop_exported [OF assms, of "replicate (length fs) NilIface" 0 n l]
  by (simp add: structFieldsToFieldsSlice_def)

lemma fieldsLoop_unexported:
  assumes "k < length fs" "\<not> IsExported (fs ! k)" "i \<le> k"
  shows "\<exists>m. fieldsLoop (Stored (StructT n fs) l False) v i = Panics m"
  using assms
proof (induction "k - i" arbitrary: i v)
  case 0
  then show ?case by (simp add: fieldsLoop_panic)
next
  case (Suc d)
  then have lt: "i < k" by simp
  show ?case
  proof (cases "IsExported (fs ! i)")
    case True
    have "\<exists>m. fieldsLoop (Stored (StructT n fs) l False) (v[i := fieldRef fs l i]) (Suc i) = Panics m"
    proof (rule Suc.hyps(1))
      show "d = k - Suc i" using Suc.hyps(2) by simp
    qed (use Suc.prems lt in auto)
    then show ?thesis
      using fieldsLoop_step [of i fs n l v] True lt Suc.prems(1) by simp
  next
    case False
    then show ?thesis using lt Suc.prems(1) by (simp add: fieldsLoop_panic)
  qed
qed

lemma structFieldsToFieldsSlice_returns_iff:
  "(\<exists>v. structFieldsToFieldsSlice (Iface (PtrTo (StructT n fs)) (Some l)) = Returns v)
   \<longleftrightarrow> (\<forall>x\<in>set fs. IsExported x)"
proof
  assume r: "\<exists>v. structFieldsToFieldsSlice (Iface (PtrTo (StructT n fs)) (Some l)) = Returns v"
  show "\<forall>x\<in>set fs. IsExported x"
  proof (rule ccontr)
    assume "\<not> (\<forall>x\<in>set fs. IsExported x)"
    then obtain k where "k < length fs" "\<not> IsExported (fs ! k)"
      by (auto simp: in_set_conv_nth)
    from fieldsLoop_unexported [OF this, of 0 n l "replicate (length fs) NilIface"]
    show False using r by (auto simp: structFieldsToFieldsSlice_def)
  qed
next
  assume "\<forall>x\<in>set fs. IsExported x"
  then show "\<exists>v. structFieldsToFieldsSlice (Iface (PtrTo (StructT n fs)) (Some l)) = Returns v"
    by (simp add: structFieldsToFieldsSlice_exported)
qed

lemma structFieldsToFieldsSlice_not_pointer:
  "Value_Kind (reflect_ValueOf u) \<noteq> reflect_Pointer \<Longrightarrow>
   structFieldsToFieldsSlice u =
     Fails (''input argument must be a pointer, got '' @ Kind_String (Value_Kind (reflect_ValueOf u)))"
  by (simp add: structFieldsToFieldsSlice_def Let_def)

text \<open>
  A \<open>nil\<close> pointer, and a pointer to anything but a struct, pass the kind check and
  panic in \<open>NumField\<close>.
\<close>

lemma structFieldsToFieldsSlice_nil_pointer:
  "structFieldsToFieldsSlice (Iface (PtrTo t) None)
   = Panics ''reflect: call of reflect.Value.NumField on zero Value''"
  by (simp add: structFieldsToFieldsSlice_def)

lemma structFieldsToFieldsSlice_pointer_to_plain:
  "structFieldsToFieldsSlice (Iface (PtrTo (Plain n k)) (Some l))
   = Panics (''reflect: call of reflect.Value.NumField on '' @ Kind_String k @ '' Value'')"
  by (simp add: structFieldsToFieldsSlice_def)

text \<open>
  C9, as stated, fails: for a pointer to a struct with an unexported field the function
  does not return a slice, it panics in \<open>reflect.Value.Interface\<close>.
\<close>

theorem structFieldsToFieldsSlice_unexported_panics:
  "structFieldsToFieldsSlice
     (Iface (PtrTo (StructT ''json2.hidden'' [StructField ''a'' False int_T])) (Some (Var 0)))
   = Panics ''reflect.Value.Interface: cannot return value obtained from unexported field or method''"
  by (simp add: structFieldsToFieldsSlice_def fieldsLoop.simps)

text \<open>
  C9, amended. If \<open>u\<close> is a non-nil pointer to a struct with \<open>n\<close> fields, all of them
  exported, \<open>structFieldsToFieldsSlice u\<close> returns, without error, a slice of length \<open>n\<close>
  whose \<open>i\<close>-th element is a pointer to the struct's \<open>i\<close>-th field, in declaration
  order. If \<open>u\<close> is not a pointer, it returns no slice and the error
  \<open>input argument must be a pointer, got <kind>\<close>, naming the actual kind.
\<close>

theorem structFieldsToFieldsSlice_result:
  "((\<forall>x\<in>set fs. IsExported x) \<longrightarrow>
      structFieldsToFieldsSlice (Iface (PtrTo (StructT n fs)) (Some l))
        = Returns (map (fieldRef fs l) [0..<length fs])
      \<and> length (map (fieldRef fs l) [0..<length fs]) = length fs
      \<and> (\<forall>i<length fs. map (fieldRef fs l) [0..<length fs] ! i
            = Iface (PtrTo (Type (fs ! i))) (Some (FieldOf l i))))
   \<and> (Value_Kind (reflect_ValueOf u) \<noteq> reflect_Pointer \<longrightarrow>
        structFieldsToFieldsSlice u =
          Fails (''input argument must be a pointer, got '' @ Kind_String (Value_Kind (reflect_ValueOf u))))"
  by (simp add: structFieldsToFieldsSlice_exported structFieldsToFieldsSlice_not_pointer fieldRef_def)

theorem structFieldsToFieldsSlice_result_witness:
  "structFieldsToFieldsSlice (Iface (PtrTo Service1Request_T) (Some (Var 0)))
     = Returns [Iface (PtrTo int_T) (Some (FieldOf (Var 0) 0)),
                Iface (PtrTo int_T) (Some (FieldOf (Var 0) 1))]
   \<and> structFieldsToFieldsSlice (Iface Service1Request_T None)
     = Fails ''input argument must be a pointer, got struct''"
  using structFieldsToFieldsSlice_result [of "[StructField ''A'' True int_T, StructField ''B'' True int_T]"
     "''json2.Service1Request''" "Var 0" "Iface Service1Request_T None"]
  by (simp add: Service1Request_T_def fieldRef_def upt_rec [of 0] upt_rec [of 1] upt_rec [of "Suc 0"])


subsection \<open>StructFields.UnmarshalJSON\<close>

lemma unmarshalLoop_step_ok:
  assumes "i < length es" "i < length f" "snd (U (es ! i) (f ! i) s) = None"
  shows "unmarshalLoop U f es i s = unmarshalLoop U f es (Suc i) (fst (U (es ! i) (f ! i) s))"
proof -
  obtain s' where "U (es ! i) (f ! i) s = (s', None)"
    using assms(3) by (cases "U (es ! i) (f ! i) s") auto
  with assms(1,2) show ?thesis
    by (subst unmarshalLoop.simps) simp
qed

lemma unmarshalLoop_step_err:
  assumes "i < length es" "i < length f" "snd (U (es ! i) (f ! i) s) = Some err"
  shows "unmarshalLoop U f es i s =
         Returns (fst (U (es ! i) (f ! i) s), Some (errField i (f ! i) err))"
proof -
  obtain s' where "U (es ! i) (f ! i) s = (s', Some err)"
    using assms(3) by (cases "U (es ! i) (f ! i) s") auto
  with assms(1,2) show ?thesis
    by (subst unmarshalLoop.simps) simp
qed

lemma unmarshalLoop_done:
  "length es \<le> i \<Longrightarrow> unmarshalLoop U f es i s = Returns (s, None)"
  by (subst unmarshalLoop.simps) simp

lemma unmarshalLoop_fails_at:
  assumes "k < length es" "k < length f" "i \<le> k"
    and "\<forall>j. i \<le> j \<and> j < k \<longrightarrow> snd (U (es ! j) (f ! j) (boundPrefix U f es j s)) = None"
    and "snd (U (es ! k) (f ! k) (boundPrefix U f es k s)) = Some err"
  shows "unmarshalLoop U f es i (boundPrefix U f es i s) =
         Returns (boundPrefix U f es (Suc k) s, Some (errField k (f ! k) err))"
  using assms
proof (induction "k - i" arbitrary: i)
  case 0
  then have "i = k" by simp
  with 0 show ?case
    by (simp add: unmarshalLoop_step_err)
next
  case (Suc d)
  then have lt: "i < k" by simp
  have ok: "snd (U (es ! i) (f ! i) (boundPrefix U f es i s)) = None"
    using Suc.prems lt by simp
  have step: "unmarshalLoop U f es i (boundPrefix U f es i s) =
              unmarshalLoop U f es (Suc i) (boundPrefix U f es (Suc i) s)"
    using ok lt Suc.prems(1,2) by (simp add: unmarshalLoop_step_ok)
  have "unmarshalLoop U f es (Suc i) (boundPrefix U f es (Suc i) s) =
        Returns (boundPrefix U f es (Suc k) s, Some (errField k (f ! k) err))"
  proof (rule Suc.hyps(1))
    show "d = k - Suc i" using Suc.hyps(2) by simp
  qed (use Suc.prems lt in auto)
  with step show ?case by simp
qed

lemma unmarshalLoop_succeeds:
  assumes "length es \<le> length f" "i \<le> length es"
    and "\<forall>j. i \<le> j \<and> j < length es \<longrightarrow> snd (U (es ! j) (f ! j) (boundPrefix U f es j s)) = None"
  shows "unmarshalLoop U f es i (boundPrefix U f es i s) =
         Returns (boundPrefix U f es (length es) s, None)"
  using assms
proof (induction "length es - i" arbitrary: i)
  case 0
  then have "i = length es" by simp
  then show ?case by (simp add: unmarshalLoop_done)
next
  case (Suc d)
  then have lt: "i < length es" by simp
  have ok: "snd (U (es ! i) (f ! i) (boundPrefix U f es i s)) = None"
    using Suc.prems lt by simp
  have step: "unmarshalLoop U f es i (boundPrefix U f es i s) =
              unmarshalLoop U f es (Suc i) (boundPrefix U f es (Suc i) s)"
    using ok lt Suc.prems(1) by (simp add: unmarshalLoop_step_ok)
  have "unmarshalLoop U f es (Suc i) (boundPrefix U f es (Suc i) s) =
        Returns (boundPrefix U f es (length es) s, None)"
  proof (rule Suc.hyps(1))
    show "d = length es - Suc i" using Suc.hyps(2) by simp
  qed (use Suc.prems lt in auto)
  with step show ?case by simp
qed


text \<open>
  With a \<open>json.Unmarshal\<close> whose variables do not alias and the references of a struct's
  fields: when every element decodes, the bind succeeds, field \<open>i\<close> of the struct holds
  what element \<open>i\<close> decodes to, and no other variable changes.
\<close>

lemma Unmarshal_slots_fieldRef:
  "Unmarshal_slots decode raw (fieldRef fs l i) s =
     (s(FieldOf l i := fst (decode (Type (fs ! i)) raw (s (FieldOf l i)))),
      snd (decode (Type (fs ! i)) raw (s (FieldOf l i))))"
  by (simp add: Unmarshal_slots_def fieldRef_def)

lemma boundPrefix_slots_elsewhere:
  assumes "k \<le> length fs" "\<forall>i<k. x \<noteq> FieldOf l i"
  shows "boundPrefix (Unmarshal_slots decode) (map (fieldRef fs l) [0..<length fs]) es k s x = s x"
  using assms
proof (induction k)
  case 0
  then show ?case by simp
next
  case (Suc k)
  then have "boundPrefix (Unmarshal_slots decode) (map (fieldRef fs l) [0..<length fs]) es k s x = s x"
    by simp
  moreover have "x \<noteq> FieldOf l k" using Suc.prems by simp
  ultimately show ?case
    using Suc.prems(1) by (simp add: Unmarshal_slots_fieldRef)
qed

lemma boundPrefix_slots_field:
  assumes "k \<le> length fs" "i < k"
  shows "boundPrefix (Unmarshal_slots decode) (map (fieldRef fs l) [0..<length fs]) es k s (FieldOf l i)
         = fst (decode (Type (fs ! i)) (es ! i) (s (FieldOf l i)))"
  using assms
proof (induction k)
  case 0
  then show ?case by simp
next
  case (Suc k)
  show ?case
  proof (cases "i = k")
    case True
    have "boundPrefix (Unmarshal_slots decode) (map (fieldRef fs l) [0..<length fs]) es k s (FieldOf l k)
          = s (FieldOf l k)"
      by (rule boundPrefix_slots_elsewhere) (use Suc.prems in auto)
    then show ?thesis
      using True Suc.prems(1) by (simp add: Unmarshal_slots_fieldRef)
  next
    case False
    then have "i < k" using Suc.prems by simp
    then have "boundPrefix (Unmarshal_slots decode) (map (fieldRef fs l) [0..<length fs]) es k s (FieldOf l i)
          = fst (decode (Type (fs ! i)) (es ! i) (s (FieldOf l i)))"
      using Suc by simp
    then show ?thesis
      using False Suc.prems(1) by (simp add: Unmarshal_slots_fieldRef)
  qed
qed

lemma boundPrefix_slots_error:
  assumes "k < length fs"
  shows "snd (Unmarshal_slots decode (es ! k) (fieldRef fs l k)
               (boundPrefix (Unmarshal_slots decode) (map (fieldRef fs l) [0..<length fs]) es k s))
         = snd (decode (Type (fs ! k)) (es ! k) (s (FieldOf l k)))"
proof -
  have "boundPrefix (Unmarshal_slots decode) (map (fieldRef fs l) [0..<length fs]) es k s (FieldOf l k)
          = s (FieldOf l k)"
    by (rule boundPrefix_slots_elsewhere) (use assms in auto)
  then show ?thesis
    using assms by (simp add: Unmarshal_slots_fieldRef)
qed

lemma UnmarshalJSON_fills_fields:
  assumes "length es = length fs"
    and "\<forall>i<length fs. snd (decode (Type (fs ! i)) (es ! i) (s (FieldOf l i))) = None"
  shows "\<exists>s'. UnmarshalJSON (Unmarshal_slots decode) (map (fieldRef fs l) [0..<length fs]) (JArray es) s
                = Returns (s', None)
           \<and> (\<forall>i<length fs. s' (FieldOf l i) = fst (decode (Type (fs ! i)) (es ! i) (s (FieldOf l i))))
           \<and> (\<forall>x. (\<forall>i<length fs. x \<noteq> FieldOf l i) \<longrightarrow> s' x = s x)"
proof -
  let ?U = "Unmarshal_slots decode"
  let ?f = "map (fieldRef fs l) [0..<length fs]"
  have "unmarshalLoop ?U ?f es 0 (boundPrefix ?U ?f es 0 s)
        = Returns (boundPrefix ?U ?f es (length es) s, None)"
    by (rule unmarshalLoop_succeeds) (use assms in \<open>auto simp: boundPrefix_slots_error\<close>)
  then have "UnmarshalJSON ?U ?f (JArray es) s = Returns (boundPrefix ?U ?f es (length fs) s, None)"
    using assms(1) by (simp add: UnmarshalJSON_def gjson_ParseBytes_def)
  then show ?thesis
    by (auto simp: boundPrefix_slots_field boundPrefix_slots_elsewhere)
qed

text \<open>
  C1. For a target of \<open>m\<close> field slots and a positional params array of \<open>k\<close> elements
  with \<open>k \<noteq> m\<close>, \<open>UnmarshalJSON\<close> fails with the error
  \<open>input array has k elements but we are trying to unserialize in only m struct fields\<close>,
  which names both counts; no element is decoded and no field is written (the memory is
  returned as it was), so the array is neither truncated nor padded. Only \<open>k = m\<close>
  passes the length check.
\<close>

theorem UnmarshalJSON_length_mismatch:
  "length es \<noteq> length f \<Longrightarrow>
   UnmarshalJSON U f (JArray es) s =
     Returns (s, Some (''input array has '' @ Itoa (length es)
        @ '' elements but we are trying to unserialize in only '' @ Itoa (length f)
        @ '' struct fields''))"
  by (simp add: UnmarshalJSON_def gjson_ParseBytes_def errLength_def)

theorem UnmarshalJSON_length_mismatch_witness:
  "length [JObject [(''T'', JString ''test'')]] \<noteq> length [Iface (PtrTo string_T) (Some (FieldOf (Var 0) 0)), Iface (PtrTo string_T) (Some (FieldOf (Var 0) 1))]
   \<and> UnmarshalJSON (Unmarshal_slots decodeString)
       [Iface (PtrTo string_T) (Some (FieldOf (Var 0) 0)), Iface (PtrTo string_T) (Some (FieldOf (Var 0) 1))]
       (JArray [JObject [(''T'', JString ''test'')]]) (\<lambda>l. '''')
     = Returns (\<lambda>l. '''', Some ''input array has 1 elements but we are trying to unserialize in only 2 struct fields'')"
  using UnmarshalJSON_length_mismatch [of "[JObject [(''T'', JString ''test'')]]"
     "[Iface (PtrTo string_T) (Some (FieldOf (Var 0) 0)), Iface (PtrTo string_T) (Some (FieldOf (Var 0) 1))]"
     "Unmarshal_slots decodeString" "\<lambda>l. ''''"]
  by (simp add: Itoa_digit digit_def)

text \<open>
  C10. If the input is not a JSON array, or is an array whose length differs from the
  number of field slots, \<open>UnmarshalJSON\<close> returns an error and the memory it was
  given: every field slot keeps its prior value. The error and the memory are the same
  for every \<open>json.Unmarshal\<close>, which is therefore not consulted: the error is returned
  before any element is decoded.
\<close>

theorem UnmarshalJSON_early_failure:
  "\<not> Result_IsArray (gjson_ParseBytes data) \<or> length (Result_Array (gjson_ParseBytes data)) \<noteq> length f \<Longrightarrow>
   \<exists>err. \<forall>U. \<forall>s. UnmarshalJSON U f data s = Returns (s, Some err)"
  by (auto simp: UnmarshalJSON_def Let_def)

theorem UnmarshalJSON_early_failure_witness:
  "(\<exists>err. \<forall>U. \<forall>s :: string store.
       UnmarshalJSON U [Iface (PtrTo string_T) (Some (FieldOf (Var 0) 0))] (JObject [(''T'', JString ''test'')]) s
         = Returns (s, Some err))
   \<and> (\<exists>err. \<forall>U. \<forall>s :: string store.
       UnmarshalJSON U [Iface (PtrTo string_T) (Some (FieldOf (Var 0) 0))] (JArray []) s
         = Returns (s, Some err))"
  using UnmarshalJSON_early_failure [of "JObject [(''T'', JString ''test'')]" "[Iface (PtrTo string_T) (Some (FieldOf (Var 0) 0))]"]
    UnmarshalJSON_early_failure [of "JArray []" "[Iface (PtrTo string_T) (Some (FieldOf (Var 0) 0))]"]
  by (simp add: gjson_ParseBytes_def)

text \<open>
  C2. For a positional params array whose length equals the number of field slots:
  if every element decodes, \<open>UnmarshalJSON\<close> returns no error and leaves the memory
  obtained by decoding, for \<open>i = 0, 1, ...\<close> in this order, the \<open>i\<close>-th element into the
  \<open>i\<close>-th field reference; if element \<open>k\<close> is the first whose decoding fails, the bind
  stops there and fails with
  \<open>unable to marshal JSON into field k of type T: cause\<close>, where \<open>T\<close> is what \<open>%T\<close>
  prints for the \<open>k\<close>-th reference. For the references \<open>structFieldsToFieldsSlice\<close>
  builds, \<open>T\<close> is \<open>*\<close> followed by the declared type of field \<open>k\<close>.
\<close>

theorem UnmarshalJSON_binds_in_order:
  "length es = length f \<Longrightarrow>
   ((\<forall>i<length es. snd (U (es ! i) (f ! i) (boundPrefix U f es i s)) = None) \<longrightarrow>
      UnmarshalJSON U f (JArray es) s = Returns (boundPrefix U f es (length es) s, None))
   \<and> (\<forall>k err. k < length es
         \<and> (\<forall>j<k. snd (U (es ! j) (f ! j) (boundPrefix U f es j s)) = None)
         \<and> snd (U (es ! k) (f ! k) (boundPrefix U f es k s)) = Some err \<longrightarrow>
       UnmarshalJSON U f (JArray es) s =
         Returns (boundPrefix U f es (Suc k) s,
           Some (''unable to marshal JSON into field '' @ Itoa k @ '' of type ''
                 @ iface_T (f ! k) @ '': '' @ err)))
   \<and> (\<forall>fs l k. f = map (fieldRef fs l) [0..<length fs] \<and> k < length fs \<longrightarrow>
         iface_T (f ! k) = ''*'' @ Type_String (Type (fs ! k)))"
proof (intro conjI impI allI)
  assume len: "length es = length f"
    and ok: "\<forall>i<length es. snd (U (es ! i) (f ! i) (boundPrefix U f es i s)) = None"
  have "unmarshalLoop U f es 0 (boundPrefix U f es 0 s) = Returns (boundPrefix U f es (length es) s, None)"
    by (rule unmarshalLoop_succeeds) (use len ok in auto)
  then show "UnmarshalJSON U f (JArray es) s = Returns (boundPrefix U f es (length es) s, None)"
    using len by (simp add: UnmarshalJSON_def gjson_ParseBytes_def)
next
  fix k err
  assume len: "length es = length f"
    and h: "k < length es
         \<and> (\<forall>j<k. snd (U (es ! j) (f ! j) (boundPrefix U f es j s)) = None)
         \<and> snd (U (es ! k) (f ! k) (boundPrefix U f es k s)) = Some err"
  have "unmarshalLoop U f es 0 (boundPrefix U f es 0 s) =
        Returns (boundPrefix U f es (Suc k) s, Some (errField k (f ! k) err))"
    by (rule unmarshalLoop_fails_at) (use len h in auto)
  then show "UnmarshalJSON U f (JArray es) s =
         Returns (boundPrefix U f es (Suc k) s,
           Some (''unable to marshal JSON into field '' @ Itoa k @ '' of type ''
                 @ iface_T (f ! k) @ '': '' @ err))"
    using len by (simp add: UnmarshalJSON_def gjson_ParseBytes_def errField_def)
next
  fix fs l k
  assume "f = map (fieldRef fs l) [0..<length fs] \<and> k < length fs"
  then show "iface_T (f ! k) = ''*'' @ Type_String (Type (fs ! k))"
    by (simp add: fieldRef_def)
qed

theorem UnmarshalJSON_binds_in_order_witness:
  "UnmarshalJSON (Unmarshal_slots decodeString)
       [Iface (PtrTo string_T) (Some (FieldOf (Var 0) 0)), Iface (PtrTo string_T) (Some (FieldOf (Var 0) 1))]
       (JArray [JString ''2.0'', JString ''Service1.Multiply'']) (\<lambda>l. '''')
     = Returns ((\<lambda>l. '''')(FieldOf (Var 0) 0 := ''2.0'', FieldOf (Var 0) 1 := ''Service1.Multiply''), None)
   \<and> UnmarshalJSON (Unmarshal_slots decodeString)
       [Iface (PtrTo string_T) (Some (FieldOf (Var 0) 0)), Iface (PtrTo string_T) (Some (FieldOf (Var 0) 1))]
       (JArray [JString ''2.0'', JNumber ''1'']) (\<lambda>l. '''')
     = Returns ((\<lambda>l. '''')(FieldOf (Var 0) 0 := ''2.0''),
         Some ''unable to marshal JSON into field 1 of type *string: json: cannot unmarshal number into Go value of type string'')"
proof -
  let ?f = "[Iface (PtrTo string_T) (Some (FieldOf (Var 0) 0)), Iface (PtrTo string_T) (Some (FieldOf (Var 0) 1))]"
  let ?U = "Unmarshal_slots decodeString"
  let ?s = "\<lambda>l::loc. ''''"
  let ?good = "[JString ''2.0'', JString ''Service1.Multiply'']"
  let ?bad = "[JString ''2.0'', JNumber ''1'']"
  have two: "\<And>P. (\<forall>i<Suc (Suc 0). P i) = (P 0 \<and> P (Suc 0))"
    by (auto simp: less_Suc_eq)
  have one: "\<And>P. (\<forall>i<Suc 0. P i) = P 0"
    by simp
  have good: "UnmarshalJSON ?U ?f (JArray ?good) ?s
      = Returns (boundPrefix ?U ?f ?good (length ?good) ?s, None)"
    using UnmarshalJSON_binds_in_order [of ?good ?f ?U ?s, THEN conjunct1]
    by (simp add: two Unmarshal_slots_def string_T_def)
  have bad: "UnmarshalJSON ?U ?f (JArray ?bad) ?s
      = Returns (boundPrefix ?U ?f ?bad (Suc (Suc 0)) ?s,
          Some (''unable to marshal JSON into field '' @ Itoa (Suc 0) @ '' of type ''
                 @ iface_T (?f ! Suc 0) @ '': '' @ ''json: cannot unmarshal number into Go value of type string''))"
    using UnmarshalJSON_binds_in_order [of ?bad ?f ?U ?s, THEN conjunct2, THEN conjunct1, THEN spec, THEN spec,
        of "Suc 0" "''json: cannot unmarshal number into Go value of type string''"]
    by (simp add: one Unmarshal_slots_def string_T_def)
  have i1: "Itoa (Suc 0) = ''1''"
    by (simp add: Itoa_digit digit_def)
  show ?thesis
    unfolding good bad
    by (simp add: i1 Unmarshal_slots_def string_T_def fun_eq_iff)
qed


subsection \<open>Strings that json.Marshal leaves as they are\<close>

lemma coerceUTF8_valid: "utf8_ValidString s \<Longrightarrow> coerceUTF8 s = s"
proof (induction s rule: coerceUTF8.induct)
  case 1
  then show ?case by simp
next
  case (2 c cs)
  then show ?case
    by (auto simp: utf8_ValidString.simps(2) coerceUTF8.simps(2) split: option.splits)
qed

lemma utf8_ValidString_ascii: "isASCII s \<Longrightarrow> utf8_ValidString s"
  by (induction s) (auto simp: isASCII_def utf8_ValidString.simps(2) utf8_DecodeRuneInString.simps)

lemma coerceUTF8_ascii: "isASCII s \<Longrightarrow> coerceUTF8 s = s"
  by (simp add: coerceUTF8_valid utf8_ValidString_ascii)

lemma Marshal_value_valid: "validStrings j \<Longrightarrow> Marshal_value j = j"
proof (induction j rule: Marshal_value.induct)
  case (2 es)
  then show ?case by (simp add: list_all_iff map_idI)
next
  case (3 ms)
  then have "\<And>m. m \<in> set ms \<Longrightarrow> (coerceUTF8 (fst m), Marshal_value (snd m)) = m"
    by (simp add: list_all_iff coerceUTF8_valid prod_eq_iff)
  then show ?case by (simp add: map_idI)
qed (simp_all add: coerceUTF8_valid)


subsection \<open>The client request envelope\<close>

text \<open>
  C7, as stated, fails for \<open>clientRequest\<close>: its \<open>Id\<close> is a plain \<open>uint64\<close> that is
  always written, so the request whose \<open>Id\<close> is zero is sent with \<open>"id":0\<close>, and no
  \<open>clientRequest\<close> is sent without an \<open>id\<close> member.
\<close>

theorem clientRequest_absent_id_not_representable:
  "Marshal_clientRequest Marshal_json
       \<lparr>Version = ''2.0'', Method = ''Service1.Multiply'', Params = JNull, Id' = 0\<rparr>
     = Returns (JObject [(''jsonrpc'', JString ''2.0''), (''method'', JString ''Service1.Multiply''),
                         (''params'', JNull), (''id'', JNumber ''0'')])
   \<and> \<not> (\<exists>c :: json clientRequest. \<exists>j.
        Marshal_clientRequest Marshal_json c = Returns j \<and> json_get j ''id'' = None)"
  by (auto simp: Marshal_clientRequest_def Marshal_json_def Itoa_digit digit_def
      coerceUTF8_ascii isASCII_def)

text \<open>
  C7, amended. The client's request envelope always carries a numeric id: every
  \<open>clientRequest\<close> that is encoded has an \<open>id\<close> member holding its \<open>Id\<close> in decimal,
  also when the \<open>Id\<close> is zero. An absent id (a notification) is not representable by it.
\<close>

theorem clientRequest_id_always_present:
  "Marshal_clientRequest json_Marshal c = Returns j \<Longrightarrow>
   json_get j ''id'' = Some (JNumber (Itoa (unat (Id' c))))"
  by (auto simp: Marshal_clientRequest_def split: outcome.splits)


theorem clientRequest_id_always_present_witness:
  "Marshal_clientRequest Marshal_json \<lparr>Version = ''2.0'', Method = ''Service1.Multiply'', Params = JNull, Id' = 0\<rparr>
     = Returns (JObject [(''jsonrpc'', JString ''2.0''), (''method'', JString ''Service1.Multiply''),
                         (''params'', JNull), (''id'', JNumber ''0'')])
   \<and> json_get (JObject [(''jsonrpc'', JString ''2.0''), (''method'', JString ''Service1.Multiply''),
                         (''params'', JNull), (''id'', JNumber ''0'')]) ''id'' = Some (JNumber ''0'')"
  using clientRequest_id_always_present [of Marshal_json
      "\<lparr>Version = ''2.0'', Method = ''Service1.Multiply'', Params = JNull, Id' = 0\<rparr>"
      "JObject [(''jsonrpc'', JString ''2.0''), (''method'', JString ''Service1.Multiply''),
                         (''params'', JNull), (''id'', JNumber ''0'')]"]
  by (simp add: Marshal_clientRequest_def Marshal_json_def Itoa_digit digit_def
      coerceUTF8_ascii isASCII_def)


subsection \<open>The server side of the codec, as the specification describes it\<close>

lemma responseId_respond: "responseId (respond mapper ctx dispatch r) = requestId r"
  by (simp add: respond_def EncodeError_def EncodeSuccess_def split: option.splits sum.splits)

lemma requestId_decodeRecord: "requestId (decodeRecord e) = json_get e ''id''"
  by (simp add: decodeRecord_def)

lemma ServeRequest_batch:
  assumes "isBatch raw" "parse raw = Some (JArray es)" "es \<noteq> []"
  shows "ServeRequest mapper ctx dispatch parse raw =
         EncodeBatch (map (respond mapper ctx dispatch) (filter answered (map decodeRecord es)))"
  using assms by (cases es) (simp_all add: ServeRequest_def DecodeRequest_def)

lemma map_of_bind_back:
  assumes "distinct (map fst args)" "map fst target = map fst args"
  shows "map (\<lambda>(n, v). (n, case map_of args n of Some x \<Rightarrow> x | None \<Rightarrow> v)) target = args"
proof (rule nth_equalityI)
  show "length (map (\<lambda>(n, v). (n, case map_of args n of Some x \<Rightarrow> x | None \<Rightarrow> v)) target) = length args"
    using assms(2) by (metis length_map)
next
  fix i assume "i < length (map (\<lambda>(n, v). (n, case map_of args n of Some x \<Rightarrow> x | None \<Rightarrow> v)) target)"
  then have i: "i < length target" by simp
  then have i': "i < length args" using assms(2) by (metis length_map)
  have fst_eq: "fst (target ! i) = fst (args ! i)"
    using assms(2) i i' by (metis nth_map)
  have "map_of args (fst (args ! i)) = Some (snd (args ! i))"
    using assms(1) i' by simp
  then show "map (\<lambda>(n, v). (n, case map_of args n of Some x \<Rightarrow> x | None \<Rightarrow> v)) target ! i = args ! i"
    using i fst_eq by (simp add: split_beta prod_eq_iff)
qed

text \<open>
  C3. Under a codec with an error-mapping function, a handler error that the mapper
  turns into a typed \<open>Error\<close> is encoded as that \<open>Error\<close>, verbatim; a handler error the
  mapper returns as a plain error is encoded with code \<open>E_SERVER\<close> and the error's text
  as the message; and a request flagged invalid is answered with \<open>E_INVALID_REQ\<close>, the
  response being the same as without a mapper: the mapper is not applied to it.
\<close>

theorem error_mapping:
  "(\<forall>e. mapper ctx err = ErrorObject e \<longrightarrow>
       error (EncodeError (Some mapper) ctx i (HandlerFailure err)) = Some e)
   \<and> (\<forall>a m. mapper ctx err = ErrorString a m \<longrightarrow>
       error (EncodeError (Some mapper) ctx i (HandlerFailure err))
         = Some \<lparr>Code = E_SERVER, Message = m, Data = None\<rparr>)
   \<and> (invalidReason r \<noteq> None \<longrightarrow>
       (\<exists>e. error (respond (Some mapper) ctx dispatch r) = Some e \<and> Code e = E_INVALID_REQ)
       \<and> respond (Some mapper) ctx dispatch r = respond None ctx dispatch r)"
  by (auto simp: EncodeError_def mapError_def respond_def split: option.splits)


theorem error_mapping_witness:
  "error (EncodeError (Some errorMapper) () (Some (JNumber ''1'')) (HandlerFailure ErrMappedResponseError))
     = Some \<lparr>Code = 100, Message = ''mapped response error'', Data = None\<rparr>
   \<and> error (EncodeError (Some errorMapper) () (Some (JNumber ''1'')) (HandlerFailure ErrResponseError))
     = Some \<lparr>Code = - 32000, Message = ''response error'', Data = None\<rparr>
   \<and> error (EncodeError (Some (\<lambda>ctx err. err)) () (Some (JNumber ''1'')) (HandlerFailure ErrResponseError))
     = Some \<lparr>Code = - 32000, Message = ''response error'', Data = None\<rparr>
   \<and> (\<exists>e. error (respond (Some errorMapper) () (\<lambda>m p. Inr JNull)
               (decodeRecord (JObject [(''jsonrpc'', JString ''3.0''), (''id'', JString ''any'')]))) = Some e
          \<and> Code e = - 32600)"
  using error_mapping [of errorMapper "()" ErrMappedResponseError "Some (JNumber ''1'')"
      "decodeRecord (JObject [(''jsonrpc'', JString ''3.0''), (''id'', JString ''any'')])" "\<lambda>m p. Inr JNull"]
    error_mapping [of errorMapper "()" ErrResponseError "Some (JNumber ''1'')"
      "decodeRecord (JObject [(''jsonrpc'', JString ''3.0''), (''id'', JString ''any'')])" "\<lambda>m p. Inr JNull"]
    error_mapping [of "\<lambda>ctx err. err" "()" ErrResponseError "Some (JNumber ''1'')"
      "decodeRecord (JObject [(''jsonrpc'', JString ''3.0''), (''id'', JString ''any'')])" "\<lambda>m p. Inr JNull"]
  by (simp add: errorMapper_def ErrMappedResponseError_def ErrResponseError_def mappedErrorCode_def
      E_SERVER_def E_INVALID_REQ_def decodeRecord_def)

text \<open>
  C4. For every request body that is not valid JSON, the reply is exactly one response,
  with the result absent and an error whose code is \<open>E_PARSE\<close>, which is -32700.
\<close>

theorem non_json_single_E_PARSE:
  "parse raw = None \<Longrightarrow>
   (\<exists>r e. replies (ServeRequest mapper ctx dispatch parse raw) = [r]
       \<and> result r = None \<and> error r = Some e \<and> Code e = E_PARSE)
   \<and> E_PARSE = - 32700"
  by (simp add: ServeRequest_def DecodeRequest_def EncodeError_def E_PARSE_def)


theorem non_json_single_E_PARSE_witness:
  "map_of [(''null'', JNull)] ''not even a json'' = None
   \<and> (\<exists>r e. replies (ServeRequest (Some errorMapper) () (\<lambda>m p. Inr JNull) (map_of [(''null'', JNull)]) ''not even a json'') = [r]
       \<and> result r = None \<and> error r = Some e \<and> Code e = - 32700)"
  using non_json_single_E_PARSE [of "map_of [(''null'', JNull)]" "''not even a json''" "Some errorMapper" "()" "\<lambda>m p. Inr JNull"]
  by simp

text \<open>
  C5. For a batch (a non-empty array of requests), the ids of the responses are the ids
  of the requests that carry one, in request order: a request with an absent id
  contributes no element. When every request carries an id, the reply is an array of as
  many responses as there are requests, the \<open>i\<close>-th being the response to the \<open>i\<close>-th
  request and echoing its id. (The specification makes the empty array an invalid
  request, not a batch.)
\<close>

theorem batch_responses_in_request_order:
  "isBatch raw \<Longrightarrow> parse raw = Some (JArray es) \<Longrightarrow> es \<noteq> [] \<Longrightarrow>
   map responseId (replies (ServeRequest mapper ctx dispatch parse raw))
     = filter (\<lambda>i. i \<noteq> None) (map (\<lambda>e. json_get e ''id'') es)
   \<and> ((\<forall>e\<in>set es. json_get e ''id'' \<noteq> None) \<longrightarrow>
        (\<exists>rs. ServeRequest mapper ctx dispatch parse raw = EncodeBatch rs
           \<and> length rs = length es
           \<and> (\<forall>i<length es. rs ! i = respond mapper ctx dispatch (decodeRecord (es ! i))
                  \<and> responseId (rs ! i) = json_get (es ! i) ''id'')))"
proof (intro conjI impI)
  assume a: "isBatch raw" "parse raw = Some (JArray es)" "es \<noteq> []"
  have "map responseId (map (respond mapper ctx dispatch) (filter answered (map decodeRecord es)))
        = map requestId (filter answered (map decodeRecord es))"
    by (simp add: responseId_respond)
  also have "\<dots> = filter (\<lambda>i. i \<noteq> None) (map requestId (map decodeRecord es))"
    by (simp add: filter_map answered_def comp_def)
  also have "\<dots> = filter (\<lambda>i. i \<noteq> None) (map (\<lambda>e. json_get e ''id'') es)"
    by (simp add: requestId_decodeRecord comp_def)
  finally show "map responseId (replies (ServeRequest mapper ctx dispatch parse raw))
     = filter (\<lambda>i. i \<noteq> None) (map (\<lambda>e. json_get e ''id'') es)"
    using a by (simp add: ServeRequest_batch)
next
  assume a: "isBatch raw" "parse raw = Some (JArray es)" "es \<noteq> []"
    and ids: "\<forall>e\<in>set es. json_get e ''id'' \<noteq> None"
  have "filter answered (map decodeRecord es) = map decodeRecord es"
    using ids by (simp add: answered_def requestId_decodeRecord)
  then have "ServeRequest mapper ctx dispatch parse raw
      = EncodeBatch (map (respond mapper ctx dispatch) (map decodeRecord es))"
    using a by (simp add: ServeRequest_batch)
  then show "\<exists>rs. ServeRequest mapper ctx dispatch parse raw = EncodeBatch rs
           \<and> length rs = length es
           \<and> (\<forall>i<length es. rs ! i = respond mapper ctx dispatch (decodeRecord (es ! i))
                  \<and> responseId (rs ! i) = json_get (es ! i) ''id'')"
    by (simp add: responseId_respond requestId_decodeRecord)
qed


theorem batch_responses_in_request_order_witness:
  "isBatch batchText
   \<and> map responseId (replies (ServeRequest None () (\<lambda>m p. Inr (JNumber ''9999''))
         (map_of [(batchText, JArray batchValue)]) batchText))
      = [Some (JNumber ''1''), Some (JNumber ''2'')]"
  using batch_responses_in_request_order [of batchText "map_of [(batchText, JArray batchValue)]" batchValue
      None "()" "\<lambda>m p. Inr (JNumber ''9999'')"]
  by (simp add: batchValue_def) (simp add: batchText_def isBatch_def)

text \<open>
  C6, as stated, fails: a method name that is not valid UTF-8 does not come back. For the
  one-byte name FF, \<open>json.Marshal\<close> writes the replacement character, and the server
  decodes the method name EF BF BD.
\<close>

theorem client_request_round_trip_invalid_utf8:
  "EncodeClientRequest Marshal_fields 7 [CHR 0xFF] []
     = Returns (JObject [(''jsonrpc'', JString ''2.0''),
                         (''method'', JString [CHR 0xEF, CHR 0xBF, CHR 0xBD]),
                         (''params'', JObject []), (''id'', JNumber ''7'')])
   \<and> methodName (decodeRecord (JObject [(''jsonrpc'', JString ''2.0''),
                         (''method'', JString [CHR 0xEF, CHR 0xBF, CHR 0xBD]),
                         (''params'', JObject []), (''id'', JNumber ''7'')]))
       = [CHR 0xEF, CHR 0xBF, CHR 0xBD]
   \<and> methodName (decodeRecord (JObject [(''jsonrpc'', JString ''2.0''),
                         (''method'', JString [CHR 0xEF, CHR 0xBF, CHR 0xBD]),
                         (''params'', JObject []), (''id'', JNumber ''7'')]))
       \<noteq> [CHR 0xFF]"
  by (simp add: EncodeClientRequest_def Marshal_clientRequest_def Marshal_fields_def
      decodeRecord_def Itoa_digit digit_def coerceUTF8_ascii isASCII_def
      coerceUTF8.simps(2) utf8_DecodeRuneInString.simps)

text \<open>
  C6, amended. For every method name that is valid UTF-8 and every argument given by
  named fields (with distinct names) whose strings are valid UTF-8, the envelope
  \<open>EncodeClientRequest\<close> produces is decoded by the server into a valid request record
  with the same method name, and binding its params by name onto a target with the same
  field names gives back the argument's fields.
\<close>

theorem client_request_round_trip:
  "utf8_ValidString name \<Longrightarrow> validStrings (JObject args) \<Longrightarrow>
   distinct (map fst args) \<Longrightarrow> map fst target = map fst args \<Longrightarrow>
   (\<exists>j. EncodeClientRequest Marshal_fields rnd name args = Returns j
      \<and> invalidReason (decodeRecord j) = None
      \<and> methodName (decodeRecord j) = name
      \<and> BindParams (rawParams (decodeRecord j)) target = Inr args)"
proof -
  assume name: "utf8_ValidString name" and args: "validStrings (JObject args)"
    and d: "distinct (map fst args)" and t: "map fst target = map fst args"
  have v: "coerceUTF8 ''2.0'' = ''2.0''"
    by (simp add: coerceUTF8_ascii isASCII_def)
  have "Marshal_value (JObject args) = JObject args"
    using args by (rule Marshal_value_valid)
  then have m: "map (\<lambda>m. (coerceUTF8 (fst m), Marshal_value (snd m))) args = args"
    by simp
  show ?thesis
    using d t
    by (simp add: EncodeClientRequest_def Marshal_clientRequest_def Marshal_fields_def m v
        coerceUTF8_valid [OF name] decodeRecord_def BindParams_def map_of_bind_back)
qed

theorem client_request_round_trip_witness:
  "utf8_ValidString ''Service1.Multiply''
   \<and> validStrings (JObject [(''A'', JNumber ''4''), (''B'', JNumber ''2'')])
   \<and> distinct (map fst [(''A'', JNumber ''4''), (''B'', JNumber ''2'')])
   \<and> EncodeClientRequest Marshal_fields 7 ''Service1.Multiply'' [(''A'', JNumber ''4''), (''B'', JNumber ''2'')]
       = Returns (JObject [(''jsonrpc'', JString ''2.0''), (''method'', JString ''Service1.Multiply''),
                           (''params'', JObject [(''A'', JNumber ''4''), (''B'', JNumber ''2'')]),
                           (''id'', JNumber ''7'')])
   \<and> (\<exists>j. EncodeClientRequest Marshal_fields 7 ''Service1.Multiply'' [(''A'', JNumber ''4''), (''B'', JNumber ''2'')] = Returns j
      \<and> invalidReason (decodeRecord j) = None
      \<and> methodName (decodeRecord j) = ''Service1.Multiply''
      \<and> BindParams (rawParams (decodeRecord j)) [(''A'', JNumber ''0''), (''B'', JNumber ''0'')]
          = Inr [(''A'', JNumber ''4''), (''B'', JNumber ''2'')])"
  using client_request_round_trip [of "''Service1.Multiply''" "[(''A'', JNumber ''4''), (''B'', JNumber ''2'')]"
      "[(''A'', JNumber ''0''), (''B'', JNumber ''0'')]" 7]
  by (simp add: EncodeClientRequest_def Marshal_clientRequest_def Marshal_fields_def Itoa_digit digit_def
      coerceUTF8_ascii utf8_ValidString_ascii isASCII_def)

subsection \<open>The test service\<close>

text \<open>
  C8. For every \<open>Service1Request\<close>, \<open>Multiply\<close> returns no error and sets
  \<open>Result\<close> to \<open>A * B\<close> (Go's wrapping product on \<open>int\<close>), except when both \<open>A\<close> and
  \<open>B\<close> are zero, where it sets the sentinel 9999. So \<open>{A:4, B:2}\<close> gives 8, and the
  all-zero request, which is what a call without params leaves in the argument, gives 9999.
\<close>

theorem Multiply_result:
  "snd (Multiply r req res) = None
   \<and> Result (fst (Multiply r req res)) =
       (if A req = 0 \<and> B req = 0 then 9999 else A req * B req)
   \<and> Result (fst (Multiply r \<lparr>A = 4, B = 2\<rparr> res)) = 8
   \<and> Result (fst (Multiply r \<lparr>A = 0, B = 0\<rparr> res)) = 9999"
  by (simp add: Multiply_def Service1DefaultResponse_def)

end
